theory Spec2Isabelle
  imports Complex_Main
begin

section \<open>Python strings and the Normalizer\<close>

text \<open>
  A Python \<open>str\<close> is a sequence of Unicode code points, so a string is modelled as the list
  of its code points; \<open>str\<close> turns an ASCII literal into that form.
\<close>

type_synonym pystr = "nat list"

definition str :: "string \<Rightarrow> pystr" where
  "str s = map of_char s"

text \<open>
  \<open>str.lower()\<close> maps the ASCII capitals \<open>A..Z\<close> (65..90) to \<open>a..z\<close> and leaves every other
  ASCII code point alone. What a code point from 128 on becomes is decided by the Unicode
  tables of the Python runtime, which are not part of the repository (one code point may
  become several, and capital sigma depends on its neighbours): that table is the
  parameter \<open>tbl\<close>, given the code points before, the code point, and the code points after.
\<close>

type_synonym lowering = "pystr \<Rightarrow> nat \<Rightarrow> pystr \<Rightarrow> pystr"

fun lower_from :: "lowering \<Rightarrow> pystr \<Rightarrow> pystr \<Rightarrow> pystr" where
  "lower_from tbl pre [] = []"
| "lower_from tbl pre (c # post) =
     (if c < 128 then [if 65 \<le> c \<and> c \<le> 90 then c + 32 else c] else tbl pre c post)
       @ lower_from tbl (pre @ [c]) post"

definition lower :: "lowering \<Rightarrow> pystr \<Rightarrow> pystr" where
  "lower tbl x = lower_from tbl [] x"

text \<open>The character class \<open>[a-z0-9]\<close> of the regular expression: 97..122 and 48..57.\<close>

definition a_z_0_9 :: "nat \<Rightarrow> bool" where
  "a_z_0_9 c \<longleftrightarrow> (97 \<le> c \<and> c \<le> 122) \<or> (48 \<le> c \<and> c \<le> 57)"

text \<open>
  Lines 27 and 49: \<open>.str.lower().str.replace("[^a-z0-9]", "", regex=True)\<close>, on one cell.
  Replacing every match of \<open>[^a-z0-9]\<close> by the empty string keeps the code points of the
  class, in order.
\<close>

definition normalize :: "lowering \<Rightarrow> pystr \<Rightarrow> pystr" where
  "normalize tbl x = filter a_z_0_9 (lower tbl x)"

text \<open>
  A cell of a city column holds a string or is missing: a blank field of the file is read
  as NaN, here \<open>None\<close>. The \<open>.str\<close> methods of lines 27 and 49 leave a missing cell missing.
\<close>

type_synonym cell = "pystr option"

definition normalize_cell :: "lowering \<Rightarrow> cell \<Rightarrow> cell" where
  "normalize_cell tbl v = map_option (normalize tbl) v"


section \<open>Tables\<close>

text \<open>
  The measurement table after the renaming and the column selection of lines 14 to 24, the
  gazetteer table after lines 38 to 46, and the table the merge produces. A missing
  coordinate (NaN) is \<open>None\<close>, and so is a missing city. The city columns are columns of
  objects, as \<open>read_csv\<close> makes them when one of their cells holds text or the table has no
  row. Every cell of the country columns holds a string, and the four measured values are
  numbers that are only carried along.
\<close>

record measurement =
  Country :: pystr
  City :: cell
  AQI :: int
  PM25 :: int
  NO2 :: int
  Ozone :: int

record gazetteer =
  geo_City :: cell
  geo_Country :: pystr
  geo_lat :: "real option"
  geo_lon :: "real option"

record joined = measurement +
  lat :: "real option"
  lon :: "real option"

datatype error = LookupError | TypeError | NameError


section \<open>Country Resolver\<close>

text \<open>
  \<open>pycountry.countries\<close> is a database object of the pycountry package: a collection of
  \<open>Country\<close> objects, with a \<open>lookup\<close> method that raises \<open>LookupError\<close> (here \<open>None\<close>) when
  it finds nothing. The package is not part of the repository, so the database is a
  parameter.
\<close>

record country =
  alpha_2 :: pystr
  alpha_3 :: pystr
  name :: pystr

record pycountry_db =
  objects :: "country list"
  lookup :: "pystr \<Rightarrow> country option"

text \<open>
  \<open>x in pycountry.countries\<close>: the database class defines \<open>__iter__\<close> and no
  \<open>__contains__\<close>, so Python iterates over the objects of the database and compares \<open>x\<close>
  with each of them. \<open>x == e\<close> for a string \<open>x\<close> is string equality when \<open>e\<close> is a string;
  when \<open>e\<close> is a \<open>Country\<close> object, neither class defines an equality between the two, and
  the comparison falls back to object identity, which is false.
\<close>

datatype pyobj = Str pystr | CountryObj country

fun str_eq :: "pystr \<Rightarrow> pyobj \<Rightarrow> bool" where
  "str_eq x (Str y) = (x = y)"
| "str_eq x (CountryObj c) = False"

definition py_in :: "pystr \<Rightarrow> pyobj list \<Rightarrow> bool" where
  "py_in x es = list_ex (str_eq x) es"

text \<open>
  The lambda of line 28:
  \<open>pycountry.countries.lookup(x).alpha_2 if x in pycountry.countries else x\<close>.
\<close>

definition resolve_country :: "pycountry_db \<Rightarrow> pystr \<Rightarrow> error + pystr" where
  "resolve_country countries x =
     (if py_in x (map CountryObj (objects countries))
      then (case lookup countries x of
              None \<Rightarrow> Inl LookupError
            | Some c \<Rightarrow> Inr (alpha_2 c))
      else Inr x)"

text \<open>\<open>df["Country"].apply(f)\<close> followed by the assignment to the column; the first raise ends it.\<close>

fun apply_Country :: "(pystr \<Rightarrow> error + pystr) \<Rightarrow> measurement list \<Rightarrow> error + measurement list" where
  "apply_Country f [] = Inr []"
| "apply_Country f (r # rs) =
     (case f (Country r) of
        Inl e \<Rightarrow> Inl e
      | Inr c \<Rightarrow>
          (case apply_Country f rs of
             Inl e \<Rightarrow> Inl e
           | Inr rs' \<Rightarrow> Inr (r\<lparr>Country := c\<rparr> # rs')))"


section \<open>Loading\<close>

definition load_air_quality_data ::
  "lowering \<Rightarrow> pycountry_db \<Rightarrow> measurement list \<Rightarrow> error + measurement list" where
  "load_air_quality_data tbl countries csv =
     (let df = map (\<lambda>r. r\<lparr>City := normalize_cell tbl (City r)\<rparr>) csv
      in apply_Country (resolve_country countries) df)"

definition load_city_coordinates :: "lowering \<Rightarrow> gazetteer list \<Rightarrow> gazetteer list" where
  "load_city_coordinates tbl csv =
     map (\<lambda>r. r\<lparr>geo_City := normalize_cell tbl (geo_City r)\<rparr>) csv"


section \<open>City Matcher\<close>

text \<open>
  \<open>fuzz.ratio\<close> of rapidfuzz is the normalized Indel similarity times 100: the Indel
  distance is the number of insertions and deletions that turn one string into the other,
  \<open>len1 + len2 - 2 * lcs\<close> for the length \<open>lcs\<close> of a longest common subsequence, and the
  similarity is \<open>1 - distance / (len1 + len2)\<close> (1 for two empty strings). The score is a
  quotient of two lengths and is compared with 85 only; it is modelled as the exact
  quotient.
\<close>

fun lcs :: "pystr \<Rightarrow> pystr \<Rightarrow> nat" where
  "lcs [] ys = 0"
| "lcs (x # xs) [] = 0"
| "lcs (x # xs) (y # ys) =
     (if x = y then Suc (lcs xs ys) else max (lcs xs (y # ys)) (lcs (x # xs) ys))"

definition ratio :: "pystr \<Rightarrow> pystr \<Rightarrow> real" where
  "ratio s1 s2 =
     (let maximum = length s1 + length s2;
          dist = maximum - 2 * lcs s1 s2
      in 100 * (1 - (if maximum = 0 then 0 else real dist / real maximum)))"

text \<open>
  \<open>process.extractOne(query, choices, scorer=fuzz.ratio)\<close> returns \<open>None\<close> for a missing
  query. Otherwise it passes over the missing choices, scores every other choice in order
  and keeps a choice only when its score is greater than the best so far, so the first of
  the best-scoring choices wins; it returns \<open>None\<close> when no choice was scored. The third
  component of its result (the index of the choice) is discarded by line 61 and is left
  out.
\<close>

fun extractOne_from :: "pystr \<Rightarrow> cell list \<Rightarrow> (pystr \<times> real) option \<Rightarrow> (pystr \<times> real) option" where
  "extractOne_from query [] result = result"
| "extractOne_from query (None # choices) result = extractOne_from query choices result"
| "extractOne_from query (Some choice # choices) result =
     (let score = ratio query choice
      in extractOne_from query choices
           (case result of
              None \<Rightarrow> Some (choice, score)
            | Some (best, best_score) \<Rightarrow>
                if score > best_score then Some (choice, score) else result))"

definition extractOne :: "cell \<Rightarrow> cell list \<Rightarrow> (pystr \<times> real) option" where
  "extractOne query choices =
     (case query of
        None \<Rightarrow> None
      | Some q \<Rightarrow> extractOne_from q choices None)"

text \<open>\<open>Series.unique()\<close>: the distinct values in order of first appearance.\<close>

fun unique_from :: "'a list \<Rightarrow> 'a list \<Rightarrow> 'a list" where
  "unique_from seen [] = []"
| "unique_from seen (x # xs) =
     (if x \<in> set seen then unique_from seen xs else x # unique_from (x # seen) xs)"

definition unique :: "'a list \<Rightarrow> 'a list" where
  "unique xs = unique_from [] xs"

text \<open>
  Lines 59 to 63: the loop that fills the dictionary \<open>city_mapping\<close>, over the distinct
  cells of the measurement table's city column. Unpacking the result of \<open>extractOne\<close> into
  three names raises \<open>TypeError\<close> when the result is \<open>None\<close>.
\<close>

fun city_mapping_loop ::
  "cell list \<Rightarrow> cell list \<Rightarrow> (cell \<rightharpoonup> pystr) \<Rightarrow> error + (cell \<rightharpoonup> pystr)" where
  "city_mapping_loop [] choices city_mapping = Inr city_mapping"
| "city_mapping_loop (city # cities) choices city_mapping =
     (case extractOne city choices of
        None \<Rightarrow> Inl TypeError
      | Some (match, score) \<Rightarrow>
          city_mapping_loop cities choices
            (if score > 85 then city_mapping(city \<mapsto> match) else city_mapping))"

definition city_mapping :: "cell list \<Rightarrow> cell list \<Rightarrow> error + (cell \<rightharpoonup> pystr)" where
  "city_mapping cities choices = city_mapping_loop cities choices Map.empty"

text \<open>
  Line 65, \<open>Series.replace(city_mapping)\<close>: a value that is a key of the dictionary is
  replaced by the key's value, any other value stays. The keys are looked for in the
  column as it was before the call, so a replaced value is not replaced again.
\<close>

definition replace_value :: "(cell \<rightharpoonup> pystr) \<Rightarrow> cell \<Rightarrow> cell" where
  "replace_value m v = (case m v of None \<Rightarrow> v | Some w \<Rightarrow> Some w)"

definition replace_City :: "(cell \<rightharpoonup> pystr) \<Rightarrow> measurement list \<Rightarrow> measurement list" where
  "replace_City m df = map (\<lambda>r. r\<lparr>City := replace_value m (City r)\<rparr>) df"


section \<open>Join Engine\<close>

definition with_coordinates :: "measurement \<Rightarrow> real option \<Rightarrow> real option \<Rightarrow> joined" where
  "with_coordinates l la lo =
     \<lparr>Country = Country l, City = City l, AQI = AQI l, PM25 = PM25 l, NO2 = NO2 l,
      Ozone = Ozone l, lat = la, lon = lo\<rparr>"

text \<open>
  Line 68, \<open>merge(..., on=["City", "Country"], how="left")\<close>: every row of the left table,
  in order, once for each row of the right table with the same pair of keys, in the right
  table's order, and once with missing coordinates when there is none. A missing key is
  the same key as a missing key.
\<close>

definition same_key :: "measurement \<Rightarrow> gazetteer \<Rightarrow> bool" where
  "same_key l g \<longleftrightarrow> geo_City g = City l \<and> geo_Country g = Country l"

definition merge_row :: "measurement \<Rightarrow> gazetteer list \<Rightarrow> joined list" where
  "merge_row l right =
     (case filter (same_key l) right of
        [] \<Rightarrow> [with_coordinates l None None]
      | g # gs \<Rightarrow> map (\<lambda>g. with_coordinates l (geo_lat g) (geo_lon g)) (g # gs))"

definition merge :: "measurement list \<Rightarrow> gazetteer list \<Rightarrow> joined list" where
  "merge left right = concat (map (\<lambda>l. merge_row l right) left)"

text \<open>Line 71, \<open>dropna(subset=['lat', 'lon'])\<close>: a row with either value missing is dropped.\<close>

definition dropna :: "joined list \<Rightarrow> joined list" where
  "dropna df = filter (\<lambda>r. lat r \<noteq> None \<and> lon r \<noteq> None) df"


section \<open>The script\<close>

text \<open>
  Lines 57 to 71. The name \<open>df_final\<close> is bound inside the \<open>if\<close> only: the result is the
  value bound to it, \<open>None\<close> when the name is left unbound.
\<close>

definition df_final :: "measurement list \<Rightarrow> gazetteer list \<Rightarrow> error + joined list option" where
  "df_final df_air_quality df_coordinates =
     (if df_coordinates \<noteq> [] then
        (case city_mapping (unique (map City df_air_quality))
                           (unique (map geo_City df_coordinates)) of
           Inl e \<Rightarrow> Inl e
         | Inr m \<Rightarrow> Inr (Some (dropna (merge (replace_City m df_air_quality) df_coordinates))))
      else Inr None)"

text \<open>
  Line 87 hands \<open>df_final\<close> to the map of the dashboard, the first of its uses: reading a
  name that is not bound raises \<open>NameError\<close>.
\<close>

definition dashboard_table :: "error + joined list option \<Rightarrow> error + joined list" where
  "dashboard_table v =
     (case v of
        Inl e \<Rightarrow> Inl e
      | Inr None \<Rightarrow> Inl NameError
      | Inr (Some df) \<Rightarrow> Inr df)"

text \<open>
  \<open>@st.cache_data\<close> on the two loaders: the first call runs the function and stores its
  result, a later call returns a copy of the stored result; a call that raises stores
  nothing. The state is what is stored for each loader.
\<close>

record cache =
  air_quality_data :: "measurement list option"
  city_coordinates :: "gazetteer list option"

definition empty_cache :: cache where
  "empty_cache = \<lparr>air_quality_data = None, city_coordinates = None\<rparr>"

definition cached_load_air_quality_data ::
  "lowering \<Rightarrow> pycountry_db \<Rightarrow> measurement list \<Rightarrow> cache \<Rightarrow> (error + measurement list) \<times> cache" where
  "cached_load_air_quality_data tbl countries csv c =
     (case air_quality_data c of
        Some df \<Rightarrow> (Inr df, c)
      | None \<Rightarrow>
          (case load_air_quality_data tbl countries csv of
             Inl e \<Rightarrow> (Inl e, c)
           | Inr df \<Rightarrow> (Inr df, c\<lparr>air_quality_data := Some df\<rparr>)))"

definition cached_load_city_coordinates ::
  "lowering \<Rightarrow> gazetteer list \<Rightarrow> cache \<Rightarrow> gazetteer list \<times> cache" where
  "cached_load_city_coordinates tbl csv c =
     (case city_coordinates c of
        Some df \<Rightarrow> (df, c)
      | None \<Rightarrow>
          (let df = load_city_coordinates tbl csv
           in (df, c\<lparr>city_coordinates := Some df\<rparr>)))"

text \<open>
  One run of the script, lines 54 to 87, on the two files and the cache of the process:
  the table the dashboard is drawn from, or the exception that ends the run, and the cache
  afterwards. Streamlit runs the script again on every interaction, with the cache the
  run before left.
\<close>

definition run_script ::
  "lowering \<Rightarrow> pycountry_db \<Rightarrow> measurement list \<Rightarrow> gazetteer list \<Rightarrow> cache
     \<Rightarrow> (error + joined list) \<times> cache" where
  "run_script tbl countries air_csv geo_csv c =
     (case cached_load_air_quality_data tbl countries air_csv c of
        (Inl e, c1) \<Rightarrow> (Inl e, c1)
      | (Inr df_air_quality, c1) \<Rightarrow>
          (case cached_load_city_coordinates tbl geo_csv c1 of
             (df_coordinates, c2) \<Rightarrow>
               (dashboard_table (df_final df_air_quality df_coordinates), c2)))"

text \<open>
  A cache that holds nothing but what the loaders return on the two files: each entry is
  empty or is the table its loader makes of its file.
\<close>

definition cache_of_files ::
  "lowering \<Rightarrow> pycountry_db \<Rightarrow> measurement list \<Rightarrow> gazetteer list \<Rightarrow> cache \<Rightarrow> bool" where
  "cache_of_files tbl countries air_csv geo_csv c \<longleftrightarrow>
     (case air_quality_data c of
        None \<Rightarrow> True
      | Some df \<Rightarrow> load_air_quality_data tbl countries air_csv = Inr df)
     \<and> (case city_coordinates c of
          None \<Rightarrow> True
        | Some df \<Rightarrow> load_city_coordinates tbl geo_csv = df)"

text \<open>The first run of a process: nothing is cached yet.\<close>

definition pipeline ::
  "lowering \<Rightarrow> pycountry_db \<Rightarrow> measurement list \<Rightarrow> gazetteer list \<Rightarrow> error + joined list" where
  "pipeline tbl countries air_csv geo_csv = fst (run_script tbl countries air_csv geo_csv empty_cache)"


section \<open>Example inputs\<close>

text \<open>
  A lowering table for two code points that become ASCII letters: U+0130 (capital I with
  dot above) becomes \<open>i\<close> followed by U+0307, and U+212A (the Kelvin sign) becomes \<open>k\<close>.
\<close>

definition example_lowering :: lowering where
  "example_lowering pre c post =
     (if c = 304 then [105, 775] else if c = 8490 then [107] else [c])"

text \<open>A database of two countries, found by any of their fields.\<close>

definition example_objects :: "country list" where
  "example_objects =
     [\<lparr>alpha_2 = str ''FR'', alpha_3 = str ''FRA'', name = str ''France''\<rparr>,
      \<lparr>alpha_2 = str ''US'', alpha_3 = str ''USA'', name = str ''United States''\<rparr>]"

definition example_countries :: pycountry_db where
  "example_countries =
     \<lparr>objects = example_objects,
      lookup = (\<lambda>x. find (\<lambda>c. x = alpha_2 c \<or> x = alpha_3 c \<or> x = name c) example_objects)\<rparr>"


section \<open>Normalizer: properties\<close>

lemma lower_from_plain:
  "\<forall>c\<in>set x. c < 128 \<and> \<not> (65 \<le> c \<and> c \<le> 90) \<Longrightarrow> lower_from tbl pre x = x"
  by (induction x arbitrary: pre) auto

lemma a_z_0_9_plain: "a_z_0_9 c \<Longrightarrow> c < 128 \<and> \<not> (65 \<le> c \<and> c \<le> 90)"
  by (auto simp: a_z_0_9_def)

lemma lower_class: "\<forall>c\<in>set x. a_z_0_9 c \<Longrightarrow> lower tbl x = x"
  unfolding lower_def by (rule lower_from_plain) (blast dest: a_z_0_9_plain)

lemma a_z_0_9_letters:
  "a_z_0_9 c \<longleftrightarrow> c \<in> set (str ''abcdefghijklmnopqrstuvwxyz0123456789'')"
  unfolding a_z_0_9_def str_def by simp arith

text \<open>
  C7. \<open>normalize\<close> is total and idempotent: it is a total function of the string (the
  empty string gives the empty string), and normalizing a normalized string changes
  nothing, whatever the runtime's lowering of the code points beyond ASCII is.
\<close>

theorem normalize_idempotent:
  "normalize tbl (normalize tbl x) = normalize tbl x \<and> normalize tbl [] = []"
proof -
  have "\<forall>c\<in>set (normalize tbl x). a_z_0_9 c"
    by (simp add: normalize_def)
  then have "lower tbl (normalize tbl x) = normalize tbl x"
    by (rule lower_class)
  then have "normalize tbl (normalize tbl x) = normalize tbl x"
    by (simp add: normalize_def)
  moreover have "normalize tbl [] = []"
    by (simp add: normalize_def lower_def)
  ultimately show ?thesis ..
qed

text \<open>
  C8. Every code point of \<open>normalize x\<close> is one of the lowercase ASCII letters \<open>a\<close> to \<open>z\<close>
  or one of the ASCII digits \<open>0\<close> to \<open>9\<close>.
\<close>

theorem normalize_lower_alnum:
  "set (normalize tbl x) \<subseteq> set (str ''abcdefghijklmnopqrstuvwxyz0123456789'')"
  by (auto simp: normalize_def a_z_0_9_letters)

text \<open>
  The same at the string of code points \<open>U+0130 s t a n b u l, space, U+212A, U+00E9, -, 7\<close>,
  which normalizes to \<open>istanbulk7\<close>.
\<close>

theorem normalize_lower_alnum_witness:
  "normalize example_lowering [304, 115, 116, 97, 110, 98, 117, 108, 32, 8490, 233, 45, 55]
     = str ''istanbulk7''
   \<and> set (str ''istanbulk7'') \<subseteq> set (str ''abcdefghijklmnopqrstuvwxyz0123456789'')"
proof -
  have n: "normalize example_lowering [304, 115, 116, 97, 110, 98, 117, 108, 32, 8490, 233, 45, 55]
             = str ''istanbulk7''"
    by (simp add: normalize_def lower_def example_lowering_def a_z_0_9_def str_def)
  have "set (normalize example_lowering [304, 115, 116, 97, 110, 98, 117, 108, 32, 8490, 233, 45, 55])
          \<subseteq> set (str ''abcdefghijklmnopqrstuvwxyz0123456789'')"
    by (rule normalize_lower_alnum)
  then show ?thesis
    unfolding n using n by blast
qed


section \<open>Country Resolver: properties\<close>

lemma not_py_in_countries: "\<not> py_in x (map CountryObj cs)"
  by (induction cs) (simp_all add: py_in_def)

lemma resolve_country_unchanged: "resolve_country countries x = Inr x"
  by (simp add: resolve_country_def not_py_in_countries)

lemma apply_Country_resolve: "apply_Country (resolve_country countries) df = Inr df"
  by (induction df) (simp_all add: resolve_country_unchanged)

lemma load_air_quality_data_eq:
  "load_air_quality_data tbl countries csv
     = Inr (map (\<lambda>r. r\<lparr>City := normalize_cell tbl (City r)\<rparr>) csv)"
  by (simp add: load_air_quality_data_def apply_Country_resolve)

text \<open>
  C10. The country-resolution step is the identity on every string: the membership test
  of line 28 holds for no string and no database, the lambda returns its argument, and
  the loader leaves the \<open>Country\<close> column as it was read.
\<close>

theorem country_resolution_is_identity:
  "\<not> py_in x (map CountryObj (objects countries))
   \<and> resolve_country countries x = Inr x
   \<and> (\<exists>df. load_air_quality_data tbl countries csv = Inr df
           \<and> map Country df = map Country csv)"
  by (simp add: not_py_in_countries resolve_country_unchanged load_air_quality_data_eq
      comp_def)

text \<open>
  C2. The claim asks that \<open>United States\<close> resolve to \<open>US\<close>. On the example database, whose
  \<open>lookup\<close> finds the country and its code \<open>US\<close>, line 28 returns \<open>United States\<close> as it
  came; \<open>Unknownland\<close> is returned unchanged, as the claim says.
\<close>

theorem resolve_country_United_States:
  "map_option alpha_2 (lookup example_countries (str ''United States'')) = Some (str ''US'')
   \<and> resolve_country example_countries (str ''United States'') = Inr (str ''United States'')
   \<and> resolve_country example_countries (str ''United States'') \<noteq> Inr (str ''US'')
   \<and> resolve_country example_countries (str ''Unknownland'') = Inr (str ''Unknownland'')"
  by (simp add: resolve_country_unchanged example_countries_def example_objects_def str_def)


section \<open>City Matcher: properties\<close>

text \<open>
  The loop of \<open>extractOne\<close>, started with any best-so-far that carries its own score: when
  a choice holds a string or there is a best-so-far, it ends with a choice and that
  choice's score, no choice scores higher, and the result is one of the choices unless the
  best-so-far survived.
\<close>

lemma extractOne_from_best:
  assumes "result = None \<or> (\<exists>b. result = Some (b, ratio q b))"
    and "(\<exists>c. Some c \<in> set cs) \<or> result \<noteq> None"
  shows "\<exists>b. extractOne_from q cs result = Some (b, ratio q b)
           \<and> (Some b \<in> set cs \<or> result = Some (b, ratio q b))
           \<and> (\<forall>c. Some c \<in> set cs \<longrightarrow> ratio q c \<le> ratio q b)
           \<and> (\<forall>b0. result = Some (b0, ratio q b0) \<longrightarrow> ratio q b0 \<le> ratio q b)"
  using assms
proof (induction cs arbitrary: result)
  case Nil
  then show ?case by auto
next
  case (Cons x cs)
  show ?case
  proof (cases x)
    case None
    have "(\<exists>c. Some c \<in> set cs) \<or> result \<noteq> None"
      using Cons.prems(2) None by auto
    from Cons.IH [OF Cons.prems(1) this] show ?thesis
      using None by auto
  next
    case (Some c)
    let ?r = "case result of None \<Rightarrow> Some (c, ratio q c)
              | Some (best, best_score) \<Rightarrow>
                  if ratio q c > best_score then Some (c, ratio q c) else result"
    have step: "extractOne_from q (x # cs) result = extractOne_from q cs ?r"
      using Some by (simp add: Let_def)
    have r1: "?r = None \<or> (\<exists>b. ?r = Some (b, ratio q b))"
      using Cons.prems(1) by (auto split: option.splits)
    have r2: "(\<exists>c. Some c \<in> set cs) \<or> ?r \<noteq> None"
      by (auto split: option.splits)
    from Cons.IH [OF r1 r2] obtain b where b:
      "extractOne_from q cs ?r = Some (b, ratio q b)"
      "Some b \<in> set cs \<or> ?r = Some (b, ratio q b)"
      "\<forall>c. Some c \<in> set cs \<longrightarrow> ratio q c \<le> ratio q b"
      "\<forall>b0. ?r = Some (b0, ratio q b0) \<longrightarrow> ratio q b0 \<le> ratio q b"
      by blast
    have c_le: "ratio q c \<le> ratio q b"
      using b(4) Cons.prems(1) by (auto split: option.splits if_splits)
    have old_le: "\<forall>b0. result = Some (b0, ratio q b0) \<longrightarrow> ratio q b0 \<le> ratio q b"
      using b(4) c_le by (auto split: option.splits if_splits)
    have mem: "Some b \<in> set (x # cs) \<or> result = Some (b, ratio q b)"
      using b(2) Some by (auto split: option.splits if_splits)
    have all_le: "\<forall>c'. Some c' \<in> set (x # cs) \<longrightarrow> ratio q c' \<le> ratio q b"
      using b(3) c_le Some by auto
    show ?thesis
      unfolding step using b(1) all_le old_le mem by blast
  qed
qed

lemma finite_these_set: "finite (Option.these (set choices))"
  by (simp add: Option.these_def)

lemma extractOne_best:
  assumes "\<exists>c. Some c \<in> set choices"
  shows "\<exists>b. extractOne (Some q) choices = Some (b, ratio q b) \<and> Some b \<in> set choices
           \<and> ratio q b = Max (ratio q ` Option.these (set choices))"
proof -
  from extractOne_from_best [of None q choices] assms obtain b where b:
    "extractOne (Some q) choices = Some (b, ratio q b)" "Some b \<in> set choices"
    "\<forall>c. Some c \<in> set choices \<longrightarrow> ratio q c \<le> ratio q b"
    unfolding extractOne_def by auto
  have "Max (ratio q ` Option.these (set choices)) = ratio q b"
  proof (rule Max_eqI)
    show "finite (ratio q ` Option.these (set choices))"
      by (simp add: finite_these_set)
    show "y \<le> ratio q b" if "y \<in> ratio q ` Option.these (set choices)" for y
      using that b(3) by (auto simp: Option.in_these_eq)
    show "ratio q b \<in> ratio q ` Option.these (set choices)"
      using b(2) by (auto simp: Option.in_these_eq)
  qed
  with b show ?thesis by auto
qed

text \<open>What the dictionary holds when the loop ends, for any dictionary it starts from.\<close>

lemma city_mapping_loop_result:
  assumes "\<exists>c. Some c \<in> set choices" and "None \<notin> set cities"
  shows "\<exists>m. city_mapping_loop cities choices m0 = Inr m
           \<and> (\<forall>s. m s = (case extractOne s choices of
                            None \<Rightarrow> m0 s
                          | Some (b, score) \<Rightarrow>
                              if s \<in> set cities \<and> score > 85 then Some b else m0 s))"
  using assms(2)
proof (induction cities arbitrary: m0)
  case Nil
  show ?case by (auto split: option.splits)
next
  case (Cons city cities)
  from Cons.prems obtain q where q: "city = Some q"
    by (cases city) auto
  from extractOne_best [OF assms(1), of q] q obtain b where
    b: "extractOne city choices = Some (b, ratio q b)" by blast
  let ?m1 = "if ratio q b > 85 then m0(city \<mapsto> b) else m0"
  have "None \<notin> set cities"
    using Cons.prems by simp
  from Cons.IH [OF this, of ?m1] obtain m where m:
    "city_mapping_loop cities choices ?m1 = Inr m"
    "\<forall>s. m s = (case extractOne s choices of
                   None \<Rightarrow> ?m1 s
                 | Some (b, score) \<Rightarrow>
                     if s \<in> set cities \<and> score > 85 then Some b else ?m1 s)"
    by blast
  have "city_mapping_loop (city # cities) choices m0 = Inr m"
    using b m(1) by simp
  moreover have "m s = (case extractOne s choices of
                          None \<Rightarrow> m0 s
                        | Some (b, score) \<Rightarrow>
                            if s \<in> set (city # cities) \<and> score > 85 then Some b else m0 s)" for s
    using m(2) b by (cases "s = city") (auto split: option.splits)
  ultimately show ?case by blast
qed

lemma city_mapping_result:
  assumes "\<exists>c. Some c \<in> set choices" and "None \<notin> set cities"
  shows "\<exists>m. city_mapping cities choices = Inr m
           \<and> (\<forall>s. m s = (case extractOne s choices of
                            None \<Rightarrow> None
                          | Some (b, score) \<Rightarrow>
                              if s \<in> set cities \<and> score > 85 then Some b else None))"
  unfolding city_mapping_def using city_mapping_loop_result [OF assms, of Map.empty]
  by simp

text \<open>With a missing cell among the measurement cities the loop raises.\<close>

lemma city_mapping_loop_blank:
  "None \<in> set cities \<Longrightarrow> city_mapping_loop cities choices m0 = Inl TypeError"
proof (induction cities arbitrary: m0)
  case Nil
  then show ?case by simp
next
  case (Cons city cities)
  show ?case
  proof (cases "extractOne city choices")
    case None
    then show ?thesis by simp
  next
    case (Some r)
    then have "city \<noteq> None"
      by (auto simp: extractOne_def split: option.splits)
    with Cons.prems have "None \<in> set cities" by auto
    from Cons.IH [OF this] Some show ?thesis
      by (cases r) simp
  qed
qed

lemma set_unique_from: "set (unique_from seen xs) = set xs - set seen"
  by (induction xs arbitrary: seen) auto

lemma set_unique: "set (unique xs) = set xs"
  by (simp add: unique_def set_unique_from)

text \<open>
  C3, as the code has it. When no city cell of the measurement table is missing and a
  gazetteer city cell holds a string, the loop of lines 59 to 63 ends with a dictionary
  and raises nothing. The dictionary has an entry for a measurement city \<open>s\<close> exactly when
  the highest score of \<open>s\<close> against the gazetteer cities is above 85; the entry is a
  gazetteer city with that highest score; nothing else has an entry; and a row of the
  measurement table whose city has no entry is the same row after line 65.
\<close>

theorem city_matcher_threshold:
  assumes "\<exists>c. Some c \<in> set choices" and "None \<notin> set cities"
  shows "\<exists>m. city_mapping cities choices = Inr m
           \<and> dom m \<subseteq> set cities
           \<and> (\<forall>s. Some s \<in> set cities \<longrightarrow>
                 (m (Some s) \<noteq> None
                    \<longleftrightarrow> Max (ratio s ` Option.these (set choices)) > 85)
               \<and> (\<forall>b. m (Some s) = Some b
                      \<longrightarrow> Some b \<in> set choices
                        \<and> ratio s b = Max (ratio s ` Option.these (set choices))))
           \<and> (\<forall>i<length df. m (City (df ! i)) = None \<longrightarrow> replace_City m df ! i = df ! i)"
proof -
  from city_mapping_result [OF assms] obtain m where m:
    "city_mapping cities choices = Inr m"
    "\<forall>s. m s = (case extractOne s choices of
                   None \<Rightarrow> None
                 | Some (b, score) \<Rightarrow>
                     if s \<in> set cities \<and> score > 85 then Some b else None)"
    by blast
  have "s \<in> set cities" if "m s = Some y" for s y
    using that m(2) [rule_format, of s] by (auto split: option.splits if_splits)
  then have dom: "dom m \<subseteq> set cities"
    by blast
  have thr: "(m (Some s) \<noteq> None \<longleftrightarrow> Max (ratio s ` Option.these (set choices)) > 85)
               \<and> (\<forall>b. m (Some s) = Some b
                      \<longrightarrow> Some b \<in> set choices
                        \<and> ratio s b = Max (ratio s ` Option.these (set choices)))"
    if "Some s \<in> set cities" for s
  proof -
    from extractOne_best [OF assms(1), of s] obtain b where
      "extractOne (Some s) choices = Some (b, ratio s b)" "Some b \<in> set choices"
      "ratio s b = Max (ratio s ` Option.these (set choices))" by blast
    with m(2) [rule_format, of "Some s"] that show ?thesis by auto
  qed
  have same: "replace_City m df ! i = df ! i" if "i < length df" "m (City (df ! i)) = None" for i
    using that by (simp add: replace_City_def replace_value_def)
  from m(1) dom thr same show ?thesis by blast
qed

text \<open>
  The same for the measurement cities \<open>parris\<close> and \<open>zzzqqq\<close> and the gazetteer cities
  \<open>paris\<close>, a missing one, and \<open>newyork\<close>: \<open>parris\<close> scores 1000/11 against \<open>paris\<close> and
  200/13 against \<open>newyork\<close>, so it is mapped to \<open>paris\<close>; \<open>zzzqqq\<close> scores 0 against both
  and has no entry.
\<close>

theorem city_matcher_threshold_witness:
  "(\<exists>c. Some c \<in> set [Some (str ''paris''), None, Some (str ''newyork'')])
   \<and> None \<notin> set [Some (str ''parris''), Some (str ''zzzqqq'')]
   \<and> (\<exists>m. city_mapping [Some (str ''parris''), Some (str ''zzzqqq'')]
                         [Some (str ''paris''), None, Some (str ''newyork'')] = Inr m
         \<and> m (Some (str ''parris'')) = Some (str ''paris'')
         \<and> m (Some (str ''zzzqqq'')) = None)"
proof -
  let ?choices = "[Some (str ''paris''), None, Some (str ''newyork'')]"
  let ?cities = "[Some (str ''parris''), Some (str ''zzzqqq'')]"
  have h1: "\<exists>c. Some c \<in> set ?choices"
    by auto
  have h2: "None \<notin> set ?cities"
    by simp
  have t: "Option.these (set ?choices) = {str ''paris'', str ''newyork''}"
    by (auto simp: Option.in_these_eq)
  have r: "ratio (str ''parris'') (str ''paris'') = 1000 / 11"
    "ratio (str ''parris'') (str ''newyork'') = 200 / 13"
    "ratio (str ''zzzqqq'') (str ''paris'') = 0"
    "ratio (str ''zzzqqq'') (str ''newyork'') = 0"
    by (simp_all add: ratio_def str_def)
  from city_matcher_threshold [OF h1 h2, of "[]"]
  obtain m where m: "city_mapping ?cities ?choices = Inr m"
    and thr: "\<forall>s. Some s \<in> set ?cities \<longrightarrow>
                 (m (Some s) \<noteq> None
                    \<longleftrightarrow> Max (ratio s ` Option.these (set ?choices)) > 85)
               \<and> (\<forall>b. m (Some s) = Some b
                      \<longrightarrow> Some b \<in> set ?choices
                        \<and> ratio s b = Max (ratio s ` Option.these (set ?choices)))"
    by blast
  from thr [rule_format, of "str ''parris''"] have p: "m (Some (str ''parris'')) \<noteq> None"
    and pb: "\<And>b. m (Some (str ''parris'')) = Some b \<Longrightarrow>
               (b = str ''paris'' \<or> b = str ''newyork'') \<and> ratio (str ''parris'') b = 1000 / 11"
    unfolding t by (simp_all add: r)
  from thr [rule_format, of "str ''zzzqqq''"] have z: "m (Some (str ''zzzqqq'')) = None"
    unfolding t by (simp add: r)
  from p obtain b where b: "m (Some (str ''parris'')) = Some b" by blast
  from pb [OF b] r(2) have "b = str ''paris''" by auto
  with b m z h1 h2 show ?thesis by blast
qed


section \<open>Join Engine: properties\<close>

lemma dropna_coordinates: "r \<in> set (dropna df) \<Longrightarrow> lat r \<noteq> None \<and> lon r \<noteq> None"
  by (simp add: dropna_def)

lemma dropna_merge:
  "dropna (merge left right) = concat (map (\<lambda>l. dropna (merge_row l right)) left)"
  by (simp add: merge_def dropna_def filter_concat comp_def)

lemma dropna_merge_row:
  "dropna (merge_row l right) =
     map (\<lambda>g. with_coordinates l (geo_lat g) (geo_lon g))
       (filter (\<lambda>g. same_key l g \<and> geo_lat g \<noteq> None \<and> geo_lon g \<noteq> None) right)"
proof (cases "filter (same_key l) right")
  case Nil
  then have "filter (\<lambda>g. same_key l g \<and> geo_lat g \<noteq> None \<and> geo_lon g \<noteq> None) right = []"
    by (auto simp: filter_empty_conv)
  with Nil show ?thesis
    by (simp add: merge_row_def dropna_def with_coordinates_def)
next
  case (Cons g gs)
  have "filter (\<lambda>g. same_key l g \<and> geo_lat g \<noteq> None \<and> geo_lon g \<noteq> None) right
          = filter (\<lambda>g. geo_lat g \<noteq> None \<and> geo_lon g \<noteq> None) (filter (same_key l) right)"
    by (simp add: conj_commute)
  with Cons show ?thesis
    by (simp add: merge_row_def dropna_def filter_map comp_def with_coordinates_def)
qed

lemma distinct_keys_filter:
  "distinct (map (\<lambda>g. (geo_City g, geo_Country g)) right) \<Longrightarrow>
     length (filter (\<lambda>g. same_key l g \<and> P g) right) \<le> 1"
proof (induction right)
  case Nil
  then show ?case by simp
next
  case (Cons g right)
  show ?case
  proof (cases "same_key l g")
    case True
    have "\<not> same_key l h" if "h \<in> set right" for h
      using Cons.prems True that by (auto simp: same_key_def image_iff)
    then have "filter (\<lambda>g. same_key l g \<and> P g) right = []"
      by (simp add: filter_empty_conv)
    then show ?thesis by simp
  next
    case False
    with Cons show ?thesis by simp
  qed
qed

lemma singleton_filter:
  "length xs \<le> 1 \<Longrightarrow> g \<in> set xs \<Longrightarrow> xs = [g]"
  by (cases xs) auto

lemma distinct_keys_one_row:
  assumes "distinct (map (\<lambda>g. (geo_City g, geo_Country g)) right)"
    and "g \<in> set right" and "same_key l g" and "geo_lat g \<noteq> None" and "geo_lon g \<noteq> None"
  shows "dropna (merge_row l right) = [with_coordinates l (geo_lat g) (geo_lon g)]"
proof -
  let ?P = "\<lambda>g. same_key l g \<and> geo_lat g \<noteq> None \<and> geo_lon g \<noteq> None"
  have "length (filter ?P right) \<le> 1"
    using assms(1) by (rule distinct_keys_filter)
  moreover have "g \<in> set (filter ?P right)"
    using assms(2-5) by simp
  ultimately have "filter ?P right = [g]"
    by (rule singleton_filter)
  then show ?thesis
    by (simp add: dropna_merge_row)
qed

text \<open>
  C5, as the code has it. The final table is made row by row of the measurement table,
  and a measurement row gives one output row for every gazetteer row that has its
  \<open>(City, Country)\<close> key and both coordinates, in the gazetteer's order. So when no two
  gazetteer rows share a key, a measurement row whose key is that of a gazetteer row with
  both coordinates gives exactly one output row, with the coordinates of that row.
\<close>

theorem join_rows_per_measurement:
  "dropna (merge left right) = concat (map (\<lambda>l. dropna (merge_row l right)) left)
   \<and> dropna (merge_row l right) =
       map (\<lambda>g. with_coordinates l (geo_lat g) (geo_lon g))
         (filter (\<lambda>g. same_key l g \<and> geo_lat g \<noteq> None \<and> geo_lon g \<noteq> None) right)
   \<and> (distinct (map (\<lambda>g. (geo_City g, geo_Country g)) right)
        \<and> g \<in> set right \<and> same_key l g \<and> geo_lat g \<noteq> None \<and> geo_lon g \<noteq> None
        \<longrightarrow> dropna (merge_row l right) = [with_coordinates l (geo_lat g) (geo_lon g)])"
  using dropna_merge dropna_merge_row distinct_keys_one_row by blast

text \<open>
  The same for a gazetteer of two rows with different keys, \<open>(springfield, US)\<close> and
  \<open>(paris, FR)\<close>, and a measurement row for \<open>(springfield, US)\<close>.
\<close>

theorem join_rows_per_measurement_witness:
  "distinct (map (\<lambda>g. (geo_City g, geo_Country g))
      [\<lparr>geo_City = Some (str ''springfield''), geo_Country = str ''US'',
        geo_lat = Some 39.80, geo_lon = Some (-89.64)\<rparr>,
       \<lparr>geo_City = Some (str ''paris''), geo_Country = str ''FR'',
        geo_lat = Some 48.85, geo_lon = Some 2.35\<rparr>])
   \<and> same_key
        \<lparr>Country = str ''US'', City = Some (str ''springfield''), AQI = 50, PM25 = 20, NO2 = 10,
         Ozone = 5\<rparr>
        \<lparr>geo_City = Some (str ''springfield''), geo_Country = str ''US'',
         geo_lat = Some 39.80, geo_lon = Some (-89.64)\<rparr>
   \<and> dropna (merge_row
        \<lparr>Country = str ''US'', City = Some (str ''springfield''), AQI = 50, PM25 = 20, NO2 = 10,
         Ozone = 5\<rparr>
        [\<lparr>geo_City = Some (str ''springfield''), geo_Country = str ''US'',
          geo_lat = Some 39.80, geo_lon = Some (-89.64)\<rparr>,
         \<lparr>geo_City = Some (str ''paris''), geo_Country = str ''FR'',
          geo_lat = Some 48.85, geo_lon = Some 2.35\<rparr>])
     = [\<lparr>Country = str ''US'', City = Some (str ''springfield''), AQI = 50, PM25 = 20, NO2 = 10,
         Ozone = 5, lat = Some 39.80, lon = Some (-89.64)\<rparr>]"
proof -
  let ?g = "\<lparr>geo_City = Some (str ''springfield''), geo_Country = str ''US'',
             geo_lat = Some 39.80, geo_lon = Some (-89.64)\<rparr>"
  let ?right = "[?g, \<lparr>geo_City = Some (str ''paris''), geo_Country = str ''FR'',
                       geo_lat = Some 48.85, geo_lon = Some 2.35\<rparr>]"
  let ?l = "\<lparr>Country = str ''US'', City = Some (str ''springfield''), AQI = 50, PM25 = 20,
             NO2 = 10, Ozone = 5\<rparr>"
  have d: "distinct (map (\<lambda>g. (geo_City g, geo_Country g)) ?right)"
    by (simp add: str_def)
  have k: "same_key ?l ?g"
    by (simp add: same_key_def)
  have h: "?g \<in> set ?right" "geo_lat ?g \<noteq> None" "geo_lon ?g \<noteq> None"
    by simp_all
  from join_rows_per_measurement [of "[]" ?right ?l ?g] d k h
  have "dropna (merge_row ?l ?right) = [with_coordinates ?l (geo_lat ?g) (geo_lon ?g)]"
    by blast
  then have "dropna (merge_row ?l ?right)
      = [\<lparr>Country = str ''US'', City = Some (str ''springfield''), AQI = 50, PM25 = 20, NO2 = 10,
          Ozone = 5, lat = Some 39.80, lon = Some (-89.64)\<rparr>]"
    by (simp add: with_coordinates_def)
  with d k show ?thesis by blast
qed


section \<open>The script: properties\<close>

text \<open>The first run of a process, without the cache.\<close>

lemma pipeline_eq:
  "pipeline tbl countries air_csv geo_csv =
     dashboard_table (df_final (map (\<lambda>r. r\<lparr>City := normalize_cell tbl (City r)\<rparr>) air_csv)
                               (load_city_coordinates tbl geo_csv))"
  by (simp add: pipeline_def run_script_def cached_load_air_quality_data_def
      cached_load_city_coordinates_def empty_cache_def load_air_quality_data_eq Let_def)

lemma pipeline_table:
  assumes "\<exists>g\<in>set geo_csv. geo_City g \<noteq> None" and "\<forall>r\<in>set air_csv. City r \<noteq> None"
  shows "\<exists>m. pipeline tbl countries air_csv geo_csv =
           Inr (dropna (merge (replace_City m
                                 (map (\<lambda>r. r\<lparr>City := normalize_cell tbl (City r)\<rparr>) air_csv))
                              (load_city_coordinates tbl geo_csv)))"
proof -
  from assms(1) obtain g x where g: "g \<in> set geo_csv" "geo_City g = Some x"
    by auto
  then have "Some (normalize tbl x) \<in> set (map geo_City (load_city_coordinates tbl geo_csv))"
    by (force simp: load_city_coordinates_def normalize_cell_def)
  then have choices:
    "\<exists>c. Some c \<in> set (unique (map geo_City (load_city_coordinates tbl geo_csv)))"
    unfolding set_unique by blast
  have cities:
    "None \<notin> set (unique (map City (map (\<lambda>r. r\<lparr>City := normalize_cell tbl (City r)\<rparr>) air_csv)))"
    unfolding set_unique using assms(2) by (auto simp: normalize_cell_def)
  from city_mapping_result [OF choices cities] obtain m where
    "city_mapping (unique (map City (map (\<lambda>r. r\<lparr>City := normalize_cell tbl (City r)\<rparr>) air_csv)))
       (unique (map geo_City (load_city_coordinates tbl geo_csv))) = Inr m"
    by blast
  moreover have "load_city_coordinates tbl geo_csv \<noteq> []"
    using g(1) by (auto simp: load_city_coordinates_def)
  ultimately show ?thesis
    by (auto simp add: pipeline_eq df_final_def dashboard_table_def)
qed

lemma pipeline_no_table: "pipeline tbl countries air_csv [] = Inl NameError"
  by (simp add: pipeline_eq df_final_def dashboard_table_def load_city_coordinates_def)

lemma pipeline_dropna:
  "pipeline tbl countries air_csv geo_csv = Inr df \<Longrightarrow> \<exists>t. df = dropna t"
  by (auto simp: pipeline_eq df_final_def dashboard_table_def
      split: if_splits sum.splits option.splits)

text \<open>
  C6. Every row of the final table has a latitude and a longitude: whenever the script
  gets a final table, none of its rows lacks either; and it gets one whenever a gazetteer
  city cell holds a string and no city cell of the measurement table is missing.
\<close>

theorem final_table_has_coordinates:
  "(\<forall>df. pipeline tbl countries air_csv geo_csv = Inr df
          \<longrightarrow> (\<forall>r\<in>set df. lat r \<noteq> None \<and> lon r \<noteq> None))
   \<and> ((\<exists>g\<in>set geo_csv. geo_City g \<noteq> None) \<and> (\<forall>r\<in>set air_csv. City r \<noteq> None)
        \<longrightarrow> (\<exists>df. pipeline tbl countries air_csv geo_csv = Inr df))"
proof (intro conjI allI impI)
  fix df
  assume "pipeline tbl countries air_csv geo_csv = Inr df"
  then obtain t where "df = dropna t"
    by (blast dest: pipeline_dropna)
  then show "\<forall>r\<in>set df. lat r \<noteq> None \<and> lon r \<noteq> None"
    using dropna_coordinates by blast
next
  assume "(\<exists>g\<in>set geo_csv. geo_City g \<noteq> None) \<and> (\<forall>r\<in>set air_csv. City r \<noteq> None)"
  then show "\<exists>df. pipeline tbl countries air_csv geo_csv = Inr df"
    using pipeline_table [of geo_csv air_csv tbl countries] by blast
qed

text \<open>
  The same for two measurement rows whose keys are both in the gazetteer: the row for
  \<open>(lyon, FR)\<close>, whose gazetteer row has no latitude, is not in the final table; the row
  for \<open>(paris, FR)\<close> is.
\<close>

theorem final_table_has_coordinates_witness:
  "pipeline example_lowering example_countries
       [\<lparr>Country = str ''FR'', City = Some (str ''Lyon''), AQI = 40, PM25 = 15, NO2 = 8,
         Ozone = 3\<rparr>,
        \<lparr>Country = str ''FR'', City = Some (str ''Paris''), AQI = 50, PM25 = 20, NO2 = 10,
         Ozone = 5\<rparr>]
       [\<lparr>geo_City = Some (str ''Lyon''), geo_Country = str ''FR'', geo_lat = None,
         geo_lon = Some 4.85\<rparr>,
        \<lparr>geo_City = Some (str ''Paris''), geo_Country = str ''FR'', geo_lat = Some 48.85,
         geo_lon = Some 2.35\<rparr>]
     = Inr [\<lparr>Country = str ''FR'', City = Some (str ''paris''), AQI = 50, PM25 = 20, NO2 = 10,
             Ozone = 5, lat = Some 48.85, lon = Some 2.35\<rparr>]
   \<and> list_all (\<lambda>r. lat r \<noteq> None \<and> lon r \<noteq> None)
       [\<lparr>Country = str ''FR'', City = Some (str ''paris''), AQI = 50, PM25 = 20, NO2 = 10,
         Ozone = 5, lat = Some 48.85, lon = Some 2.35\<rparr>]"
proof -
  let ?air = "[\<lparr>Country = str ''FR'', City = Some (str ''Lyon''), AQI = 40, PM25 = 15, NO2 = 8,
                 Ozone = 3\<rparr>,
               \<lparr>Country = str ''FR'', City = Some (str ''Paris''), AQI = 50, PM25 = 20, NO2 = 10,
                 Ozone = 5\<rparr>]"
  let ?geo = "[\<lparr>geo_City = Some (str ''Lyon''), geo_Country = str ''FR'', geo_lat = None,
                 geo_lon = Some 4.85\<rparr>,
               \<lparr>geo_City = Some (str ''Paris''), geo_Country = str ''FR'', geo_lat = Some 48.85,
                 geo_lon = Some 2.35\<rparr>]"
  let ?out = "[\<lparr>Country = str ''FR'', City = Some (str ''paris''), AQI = 50, PM25 = 20,
                 NO2 = 10, Ozone = 5, lat = Some 48.85, lon = Some 2.35\<rparr>]"
  have h: "(\<exists>g\<in>set ?geo. geo_City g \<noteq> None) \<and> (\<forall>r\<in>set ?air. City r \<noteq> None)"
    by simp
  with final_table_has_coordinates [of example_lowering example_countries ?air ?geo]
  obtain df where df: "pipeline example_lowering example_countries ?air ?geo = Inr df"
    and co: "\<forall>r\<in>set df. lat r \<noteq> None \<and> lon r \<noteq> None"
    by blast
  have e: "pipeline example_lowering example_countries ?air ?geo = Inr ?out"
    by (simp add: pipeline_eq load_city_coordinates_def normalize_cell_def normalize_def
        lower_def a_z_0_9_def str_def df_final_def dashboard_table_def unique_def
        city_mapping_def extractOne_def ratio_def replace_City_def replace_value_def
        merge_def merge_row_def same_key_def with_coordinates_def dropna_def
        del: not_None_eq)
  with df have "df = ?out" by simp
  with co have "list_all (\<lambda>r. lat r \<noteq> None \<and> lon r \<noteq> None) ?out"
    unfolding list_all_iff by simp
  with e show ?thesis by blast
qed

text \<open>
  C4. With a gazetteer that has no row the \<open>if\<close> of line 57 is skipped: nothing is matched
  and nothing raises in lines 57 to 71, but \<open>df_final\<close> is left unbound, and the run ends
  with \<open>NameError\<close> where line 87 reads it. The claim asks for an output table.
\<close>

theorem empty_gazetteer_no_table:
  "df_final df_air_quality [] = Inr None
   \<and> pipeline tbl countries air_csv [] = Inl NameError"
  by (simp add: df_final_def pipeline_no_table)

text \<open>
  C1. On the measurement row and the gazetteer row of the claim the final table is empty:
  the city \<open>Parris\<close> is normalized and mapped to \<open>paris\<close>, but the country stays \<open>France\<close>
  and the key \<open>(paris, France)\<close> is not in the gazetteer. The row the claim expects is
  produced when the measurement row carries the country \<open>FR\<close> already.
\<close>

theorem end_to_end_example:
  "pipeline tbl countries
     [\<lparr>Country = str ''France'', City = Some (str ''Parris''), AQI = 50, PM25 = 20, NO2 = 10,
       Ozone = 5\<rparr>]
     [\<lparr>geo_City = Some (str ''Paris''), geo_Country = str ''FR'', geo_lat = Some 48.85,
       geo_lon = Some 2.35\<rparr>]
   = Inr []
   \<and> pipeline tbl countries
     [\<lparr>Country = str ''FR'', City = Some (str ''Parris''), AQI = 50, PM25 = 20, NO2 = 10,
       Ozone = 5\<rparr>]
     [\<lparr>geo_City = Some (str ''Paris''), geo_Country = str ''FR'', geo_lat = Some 48.85,
       geo_lon = Some 2.35\<rparr>]
   = Inr [\<lparr>Country = str ''FR'', City = Some (str ''paris''), AQI = 50, PM25 = 20, NO2 = 10,
           Ozone = 5, lat = Some 48.85, lon = Some 2.35\<rparr>]"
  by (simp add: pipeline_eq load_city_coordinates_def normalize_cell_def normalize_def
      lower_def a_z_0_9_def str_def df_final_def dashboard_table_def unique_def
      city_mapping_def extractOne_def ratio_def replace_City_def replace_value_def
      merge_def merge_row_def same_key_def with_coordinates_def dropna_def
      del: not_None_eq)

text \<open>
  C5, as the claim has it, fails: with two gazetteer rows for \<open>(Springfield, US)\<close> the one
  measurement row for that key gives two rows of the final table.
\<close>

theorem duplicate_gazetteer_key_two_rows:
  "pipeline example_lowering example_countries
     [\<lparr>Country = str ''US'', City = Some (str ''Springfield''), AQI = 50, PM25 = 20, NO2 = 10,
       Ozone = 5\<rparr>]
     [\<lparr>geo_City = Some (str ''Springfield''), geo_Country = str ''US'', geo_lat = Some 39.80,
       geo_lon = Some (-89.64)\<rparr>,
      \<lparr>geo_City = Some (str ''Springfield''), geo_Country = str ''US'', geo_lat = Some 42.10,
       geo_lon = Some (-72.59)\<rparr>]
   = Inr [\<lparr>Country = str ''US'', City = Some (str ''springfield''), AQI = 50, PM25 = 20,
           NO2 = 10, Ozone = 5, lat = Some 39.80, lon = Some (-89.64)\<rparr>,
          \<lparr>Country = str ''US'', City = Some (str ''springfield''), AQI = 50, PM25 = 20,
           NO2 = 10, Ozone = 5, lat = Some 42.10, lon = Some (-72.59)\<rparr>]"
  by (simp add: pipeline_eq load_city_coordinates_def normalize_cell_def normalize_def
      lower_def a_z_0_9_def str_def df_final_def dashboard_table_def unique_def
      city_mapping_def extractOne_def ratio_def replace_City_def replace_value_def
      merge_def merge_row_def same_key_def with_coordinates_def dropna_def
      del: not_None_eq)

text \<open>
  C3, as the claim has it, fails: in a measurement table with a blank city cell and the
  city \<open>Parris\<close>, and the gazetteer city \<open>Paris\<close>, the city \<open>parris\<close> scores 1000/11, above
  85, against the gazetteer, but line 61 raises \<open>TypeError\<close> at the missing cell: no
  dictionary is made, nothing is mapped, and the run ends there.
\<close>

theorem blank_city_no_mapping:
  "city_mapping [None, Some (str ''parris'')] [Some (str ''paris'')] = Inl TypeError
   \<and> 85 < ratio (str ''parris'') (str ''paris'')
   \<and> pipeline example_lowering example_countries
       [\<lparr>Country = str ''FR'', City = None, AQI = 40, PM25 = 15, NO2 = 8, Ozone = 3\<rparr>,
        \<lparr>Country = str ''FR'', City = Some (str ''Parris''), AQI = 50, PM25 = 20, NO2 = 10,
         Ozone = 5\<rparr>]
       [\<lparr>geo_City = Some (str ''Paris''), geo_Country = str ''FR'', geo_lat = Some 48.85,
         geo_lon = Some 2.35\<rparr>]
     = Inl TypeError"
  by (simp add: pipeline_eq load_city_coordinates_def normalize_cell_def normalize_def
      lower_def a_z_0_9_def str_def df_final_def dashboard_table_def unique_def
      city_mapping_def extractOne_def ratio_def)

text \<open>
  C9, as the claim has it, fails: the loaders are cached for the life of the process and
  the cache does not look at the files. After a run on a measurement file with the value
  50, a run on the file with the value 70 in its place still shows 50; the first run of
  another process on the same two files shows 70.
\<close>

theorem stale_cache_other_table:
  "fst (run_script example_lowering example_countries
          [\<lparr>Country = str ''FR'', City = Some (str ''Paris''), AQI = 70, PM25 = 20, NO2 = 10,
            Ozone = 5\<rparr>]
          [\<lparr>geo_City = Some (str ''Paris''), geo_Country = str ''FR'', geo_lat = Some 48.85,
            geo_lon = Some 2.35\<rparr>]
          (snd (run_script example_lowering example_countries
                  [\<lparr>Country = str ''FR'', City = Some (str ''Paris''), AQI = 50, PM25 = 20,
                    NO2 = 10, Ozone = 5\<rparr>]
                  [\<lparr>geo_City = Some (str ''Paris''), geo_Country = str ''FR'',
                    geo_lat = Some 48.85, geo_lon = Some 2.35\<rparr>]
                  empty_cache)))
     = Inr [\<lparr>Country = str ''FR'', City = Some (str ''paris''), AQI = 50, PM25 = 20, NO2 = 10,
             Ozone = 5, lat = Some 48.85, lon = Some 2.35\<rparr>]
   \<and> fst (run_script example_lowering example_countries
          [\<lparr>Country = str ''FR'', City = Some (str ''Paris''), AQI = 70, PM25 = 20, NO2 = 10,
            Ozone = 5\<rparr>]
          [\<lparr>geo_City = Some (str ''Paris''), geo_Country = str ''FR'', geo_lat = Some 48.85,
            geo_lon = Some 2.35\<rparr>]
          empty_cache)
     = Inr [\<lparr>Country = str ''FR'', City = Some (str ''paris''), AQI = 70, PM25 = 20, NO2 = 10,
             Ozone = 5, lat = Some 48.85, lon = Some 2.35\<rparr>]"
  by (simp add: run_script_def cached_load_air_quality_data_def
      cached_load_city_coordinates_def empty_cache_def load_air_quality_data_eq Let_def
      load_city_coordinates_def normalize_cell_def normalize_def
      lower_def a_z_0_9_def str_def df_final_def dashboard_table_def unique_def
      city_mapping_def extractOne_def ratio_def replace_City_def replace_value_def
      merge_def merge_row_def same_key_def with_coordinates_def dropna_def
      del: not_None_eq)

text \<open>
  C9, as the code has it. The empty cache of a new process holds nothing but what the
  loaders return on the two files. A run on the two files that starts with such a cache
  ends as the first run of a process on these files does, with the same final table or
  the same exception, and leaves such a cache; so every later run of that process on
  these files ends the same way.
\<close>

theorem rerun_same_table:
  "cache_of_files tbl countries air_csv geo_csv empty_cache
   \<and> (cache_of_files tbl countries air_csv geo_csv c
        \<longrightarrow> fst (run_script tbl countries air_csv geo_csv c)
              = pipeline tbl countries air_csv geo_csv
          \<and> cache_of_files tbl countries air_csv geo_csv
               (snd (run_script tbl countries air_csv geo_csv c)))"
  by (auto simp: cache_of_files_def pipeline_def run_script_def
      cached_load_air_quality_data_def cached_load_city_coordinates_def empty_cache_def
      load_air_quality_data_eq Let_def split: option.splits)

text \<open>
  The same for a cache that holds the measurement table of the file and no gazetteer
  table yet.
\<close>

theorem rerun_same_table_witness:
  "cache_of_files example_lowering example_countries
     [\<lparr>Country = str ''FR'', City = Some (str ''Paris''), AQI = 50, PM25 = 20, NO2 = 10,
       Ozone = 5\<rparr>]
     [\<lparr>geo_City = Some (str ''Paris''), geo_Country = str ''FR'', geo_lat = Some 48.85,
       geo_lon = Some 2.35\<rparr>]
     \<lparr>air_quality_data =
        Some [\<lparr>Country = str ''FR'', City = Some (str ''paris''), AQI = 50, PM25 = 20,
                NO2 = 10, Ozone = 5\<rparr>],
      city_coordinates = None\<rparr>
   \<and> fst (run_script example_lowering example_countries
       [\<lparr>Country = str ''FR'', City = Some (str ''Paris''), AQI = 50, PM25 = 20, NO2 = 10,
         Ozone = 5\<rparr>]
       [\<lparr>geo_City = Some (str ''Paris''), geo_Country = str ''FR'', geo_lat = Some 48.85,
         geo_lon = Some 2.35\<rparr>]
       \<lparr>air_quality_data =
          Some [\<lparr>Country = str ''FR'', City = Some (str ''paris''), AQI = 50, PM25 = 20,
                  NO2 = 10, Ozone = 5\<rparr>],
        city_coordinates = None\<rparr>)
     = pipeline example_lowering example_countries
         [\<lparr>Country = str ''FR'', City = Some (str ''Paris''), AQI = 50, PM25 = 20, NO2 = 10,
           Ozone = 5\<rparr>]
         [\<lparr>geo_City = Some (str ''Paris''), geo_Country = str ''FR'', geo_lat = Some 48.85,
           geo_lon = Some 2.35\<rparr>]"
proof -
  let ?air = "[\<lparr>Country = str ''FR'', City = Some (str ''Paris''), AQI = 50, PM25 = 20,
                 NO2 = 10, Ozone = 5\<rparr>]"
  let ?geo = "[\<lparr>geo_City = Some (str ''Paris''), geo_Country = str ''FR'',
                 geo_lat = Some 48.85, geo_lon = Some 2.35\<rparr>]"
  let ?c = "\<lparr>air_quality_data =
               Some [\<lparr>Country = str ''FR'', City = Some (str ''paris''), AQI = 50, PM25 = 20,
                       NO2 = 10, Ozone = 5\<rparr>],
             city_coordinates = None\<rparr>"
  have h: "cache_of_files example_lowering example_countries ?air ?geo ?c"
    by (simp add: cache_of_files_def load_air_quality_data_eq normalize_cell_def
        normalize_def lower_def a_z_0_9_def str_def)
  with rerun_same_table [of example_lowering example_countries ?air ?geo ?c]
  show ?thesis by blast
qed

end
